theory Spec2Isabelle
  imports Main "HOL-Library.Sublist" "HOL-Library.AList"
begin

text \<open>
  A model of the two page scripts \<open>calendar_django.init.js\<close> (the appointments page,
  its lines 1 to 343) and \<open>calendar_rooms.init.js\<close> (the rooms page). A handler is a
  function from the variables of the page, the event it is called with and the way its
  request settles to the new variables and the list of what it does, in order. The
  browser and the calendar library are the environment: their built-in functions that the
  claims depend on (\<open>split\<close>, \<open>trim\<close>, \<open>substring\<close>, \<open>decodeURIComponent\<close>,
  property assignment, \<open>setInterval\<close>) are modelled after their standards, and what
  the scripts only pass on (formatted dates, the markup of the dialog) is a parameter.
  The file \<open>calendar_django.init.js\<close> carries, from its line 344 on, a second script
  that keeps its events in the browser and talks to no server; it is not modelled.
\<close>

section \<open>JavaScript strings\<close>

text \<open>
  A JavaScript string is a sequence of UTF-16 code units. The page scripts contain Greek
  alert texts and \<open>trim\<close> strips Unicode white space, so strings are lists of code
  units (natural numbers below 65536), and an ASCII literal of the source is written
  \<open>lit ''...''\<close>.
\<close>

type_synonym jsstring = "nat list"

definition lit :: "string \<Rightarrow> jsstring" where
  "lit s = map of_char s"

datatype jserror = URIError | TypeError | NetworkError | SyntaxError

text \<open>
  \<open>String.prototype.split\<close> with a one-code-unit separator: \<open>n\<close> separators give
  \<open>n + 1\<close> pieces, and the empty string gives one empty piece.
\<close>

fun split_js :: "nat \<Rightarrow> jsstring \<Rightarrow> jsstring list" where
  "split_js sep [] = [[]]"
| "split_js sep (c # cs) =
     (if c = sep then [] # split_js sep cs
      else (case split_js sep cs of
              p # ps \<Rightarrow> (c # p) # ps
            | [] \<Rightarrow> [[c]]))"

text \<open>
  \<open>String.prototype.trim\<close> removes the code units of WhiteSpace and LineTerminator
  (ECMA-262) from both ends.
\<close>

definition is_js_space :: "nat \<Rightarrow> bool" where
  "is_js_space c =
     (c = 9 \<or> c = 10 \<or> c = 11 \<or> c = 12 \<or> c = 13 \<or> c = 32 \<or> c = 160 \<or> c = 5760
      \<or> (8192 \<le> c \<and> c \<le> 8202) \<or> c = 8232 \<or> c = 8233 \<or> c = 8239 \<or> c = 8287
      \<or> c = 12288 \<or> c = 65279)"

definition trim :: "jsstring \<Rightarrow> jsstring" where
  "trim s = rev (dropWhile is_js_space (rev (dropWhile is_js_space s)))"

text \<open>
  \<open>s.substring(0, n)\<close> and \<open>s.substring(n)\<close> clamp their indices to the length of
  \<open>s\<close>, as \<open>take\<close> and \<open>drop\<close> do.
\<close>

definition substring_to :: "jsstring \<Rightarrow> nat \<Rightarrow> jsstring" where
  "substring_to s n = take n s"

definition substring_from :: "jsstring \<Rightarrow> nat \<Rightarrow> jsstring" where
  "substring_from s n = drop n s"

section \<open>decodeURIComponent\<close>

text \<open>
  The built-in \<open>decodeURIComponent\<close>, after the Decode operation of ECMA-262 with an
  empty set of preserved escapes: a code unit other than \<open>%\<close> is copied; \<open>%XX\<close> is an
  octet; an octet below 128 is the code unit itself; an octet with \<open>n\<close> leading one bits
  (\<open>n\<close> from 2 to 4) starts a UTF-8 sequence of \<open>n\<close> escaped octets, which must encode a
  code point validly; everything else throws URIError.
\<close>

definition hexval :: "nat \<Rightarrow> nat option" where
  "hexval c =
     (if 48 \<le> c \<and> c \<le> 57 then Some (c - 48)
      else if 65 \<le> c \<and> c \<le> 70 then Some (c - 55)
      else if 97 \<le> c \<and> c \<le> 102 then Some (c - 87)
      else None)"

fun parseHexOctet :: "jsstring \<Rightarrow> nat option" where
  "parseHexOctet (a # b # rest) =
     (case hexval a of
        None \<Rightarrow> None
      | Some h \<Rightarrow> (case hexval b of None \<Rightarrow> None | Some l \<Rightarrow> Some (16 * h + l)))"
| "parseHexOctet s = None"

text \<open>The number of leading one bits of an octet.\<close>

definition leading_ones :: "nat \<Rightarrow> nat" where
  "leading_ones b =
     (if b < 128 then 0 else if b < 192 then 1 else if b < 224 then 2
      else if b < 240 then 3 else if b < 248 then 4 else 5)"

text \<open>
  \<open>continuation k s\<close> reads \<open>k\<close> further escapes \<open>%XX\<close> from the front of \<open>s\<close> and
  returns their octets with the rest of the string; \<open>None\<close> where Decode throws.
\<close>

fun continuation :: "nat \<Rightarrow> jsstring \<Rightarrow> (nat list \<times> jsstring) option" where
  "continuation 0 s = Some ([], s)"
| "continuation (Suc k) [] = None"
| "continuation (Suc k) (c # s) =
     (if c \<noteq> 37 then None
      else (case parseHexOctet s of
              None \<Rightarrow> None
            | Some b \<Rightarrow>
                (case continuation k (drop 2 s) of
                   None \<Rightarrow> None
                 | Some (bs, r) \<Rightarrow> Some (b # bs, r))))"

text \<open>
  The code point of a well-formed UTF-8 sequence (Unicode, table 3-7): continuation
  octets in 80..BF, no overlong form, no surrogate, at most 10FFFF.
\<close>

definition is_cont :: "nat \<Rightarrow> bool" where
  "is_cont b = (128 \<le> b \<and> b < 192)"

fun utf8_codepoint :: "nat list \<Rightarrow> nat option" where
  "utf8_codepoint [b0, b1] =
     (let v = (b0 - 192) * 64 + (b1 - 128)
      in if is_cont b1 \<and> 128 \<le> v then Some v else None)"
| "utf8_codepoint [b0, b1, b2] =
     (let v = (b0 - 224) * 4096 + (b1 - 128) * 64 + (b2 - 128)
      in if is_cont b1 \<and> is_cont b2 \<and> 2048 \<le> v \<and> \<not> (55296 \<le> v \<and> v \<le> 57343)
         then Some v else None)"
| "utf8_codepoint [b0, b1, b2, b3] =
     (let v = (b0 - 240) * 262144 + (b1 - 128) * 4096 + (b2 - 128) * 64 + (b3 - 128)
      in if is_cont b1 \<and> is_cont b2 \<and> is_cont b3 \<and> 65536 \<le> v \<and> v \<le> 1114111
         then Some v else None)"
| "utf8_codepoint bs = None"

definition utf16_encode :: "nat \<Rightarrow> jsstring" where
  "utf16_encode v =
     (if v < 65536 then [v]
      else [55296 + (v - 65536) div 1024, 56320 + (v - 65536) mod 1024])"

lemma continuation_length:
  "continuation k s = Some (bs, r) \<Longrightarrow> length r \<le> length s"
proof (induction k s arbitrary: bs r rule: continuation.induct)
  case (1 s)
  then show ?case by simp
next
  case (2 k)
  then show ?case by simp
next
  case (3 k c s)
  then show ?case
    by (fastforce split: if_splits option.splits)
qed

function decodeURIComponent :: "jsstring \<Rightarrow> jserror + jsstring" where
  "decodeURIComponent [] = Inr []"
| "decodeURIComponent (c # s) =
     (if c \<noteq> 37 then
        (case decodeURIComponent s of Inl e \<Rightarrow> Inl e | Inr r \<Rightarrow> Inr (c # r))
      else
        (case parseHexOctet s of
           None \<Rightarrow> Inl URIError
         | Some b \<Rightarrow>
             (if leading_ones b = 0 then
                (case decodeURIComponent (drop 2 s) of
                   Inl e \<Rightarrow> Inl e
                 | Inr r \<Rightarrow> Inr (b # r))
              else if leading_ones b = 1 \<or> 4 < leading_ones b then Inl URIError
              else
                (case continuation (leading_ones b - 1) (drop 2 s) of
                   None \<Rightarrow> Inl URIError
                 | Some (bs, rest) \<Rightarrow>
                     (case utf8_codepoint (b # bs) of
                        None \<Rightarrow> Inl URIError
                      | Some v \<Rightarrow>
                          (case decodeURIComponent rest of
                             Inl e \<Rightarrow> Inl e
                           | Inr r \<Rightarrow> Inr (utf16_encode v @ r)))))))"
  by pat_completeness auto
termination
proof (relation "measure length")
  show "wf (measure length)" by simp
next
  fix c :: nat and s :: jsstring
  show "(s, c # s) \<in> measure length" by simp
next
  fix c :: nat and s :: jsstring
  show "(drop 2 s, c # s) \<in> measure length" by simp
next
  fix c :: nat and s :: jsstring and b :: nat and x2 :: "nat list \<times> jsstring"
    and bs :: "nat list" and rest :: jsstring
  assume "continuation (leading_ones b - 1) (drop 2 s) = Some x2" and "(bs, rest) = x2"
  then have "length rest \<le> length (drop 2 s)"
    using continuation_length by metis
  then show "(rest, c # s) \<in> measure length" by simp
qed

section \<open>getCookie\<close>

text \<open>
  \<open>getCookie\<close> of both page scripts (lines 7 to 20). The \<open>for\<close> loop over the index
  \<open>i\<close> is the recursion of \<open>getCookie_loop\<close>: it stops at the first entry that
  matches (\<open>break\<close>), and an exception of \<open>decodeURIComponent\<close> leaves the function,
  since the source has no \<open>try\<close>. The result is \<open>Inl\<close> for a thrown error, \<open>Inr None\<close>
  for \<open>null\<close> and \<open>Inr (Some v)\<close> for the string \<open>v\<close>.
\<close>

function getCookie_loop :: "jsstring \<Rightarrow> jsstring list \<Rightarrow> nat \<Rightarrow> jserror + jsstring option" where
  "getCookie_loop name cookies i =
     (if i < length cookies then
        (let cookie = trim (cookies ! i)
         in if substring_to cookie (length name + 1) = name @ lit ''=''
            then (case decodeURIComponent (substring_from cookie (length name + 1)) of
                    Inl e \<Rightarrow> Inl e
                  | Inr v \<Rightarrow> Inr (Some v))
            else getCookie_loop name cookies (i + 1))
      else Inr None)"
  by pat_completeness auto
termination
  by (relation "measure (\<lambda>(name, cookies, i). length cookies - i)") auto

declare getCookie_loop.simps [simp del]

definition getCookie :: "jsstring \<Rightarrow> jsstring \<Rightarrow> jserror + jsstring option" where
  "getCookie name document_cookie =
     (if document_cookie \<noteq> []
      then getCookie_loop name (split_js 59 document_cookie) 0
      else Inr None)"

section \<open>Data of the page scripts\<close>

text \<open>
  A \<open>Date\<close> is a local calendar day and the milliseconds into it:
  \<open>d.setDate(d.getDate() + n)\<close> moves the day by \<open>n\<close> and keeps the time of day.
\<close>

record jsdate =
  dayNumber :: int
  msOfDay :: nat

definition addDays :: "jsdate \<Rightarrow> int \<Rightarrow> jsdate" where
  "addDays d n = d\<lparr>dayNumber := dayNumber d + n\<rparr>"

text \<open>
  The document, as far as the scripts read it: its elements in document order, each with
  its \<open>id\<close> (empty when it has none) and its \<open>data-room-id\<close> and
  \<open>data-room-name\<close> attributes. \<open>getElementById\<close> returns the first element with
  the id, and \<open>null\<close> for the empty id.
\<close>

record element =
  el_id :: jsstring
  data_room_id :: "jsstring option"
  data_room_name :: "jsstring option"

definition getElementById :: "element list \<Rightarrow> jsstring \<Rightarrow> element option" where
  "getElementById document i = (if i = [] then None else find (\<lambda>el. el_id el = i) document)"

text \<open>An entry of \<open>calendarConfigs\<close> (lines 33 to 58 of calendar_django.init.js).\<close>

record config =
  cfg_id :: jsstring
  elementId :: jsstring
  title :: jsstring
  dateOffset :: int

definition calendarConfigs :: "config list" where
  "calendarConfigs =
     [\<lparr>cfg_id = lit ''calendar1'', elementId = lit ''calendar1'', title = lit ''Today'',
        dateOffset = 0\<rparr>,
      \<lparr>cfg_id = lit ''calendar2'', elementId = lit ''calendar2'', title = lit ''Tomorrow'',
        dateOffset = 1\<rparr>,
      \<lparr>cfg_id = lit ''calendar3'', elementId = lit ''calendar3'',
        title = lit ''Day After Tomorrow'', dateOffset = 2\<rparr>,
      \<lparr>cfg_id = lit ''calendar4'', elementId = lit ''calendar4'', title = lit ''In 3 Days'',
        dateOffset = 3\<rparr>]"

text \<open>An entry of \<open>roomsData\<close> (lines 32 to 39 of calendar_rooms.init.js).\<close>

record roomConfig =
  room_id :: jsstring
  room_name :: "jsstring option"
  room_elementId :: jsstring

fun roomsData :: "element list \<Rightarrow> roomConfig list" where
  "roomsData [] = []"
| "roomsData (el # els) =
     (case data_room_id el of
        None \<Rightarrow> roomsData els
      | Some rid \<Rightarrow>
          \<lparr>room_id = rid, room_name = data_room_name el, room_elementId = el_id el\<rparr>
            # roomsData els)"

text \<open>
  A calendar instance: the element it is rendered in, the identifier of the configuration
  its callbacks close over, and the date it displays (\<open>initialDate\<close>, then the
  argument of the last \<open>gotoDate\<close>). The object \<open>calendars\<close> is an association
  list from keys to instances: assigning to a new key appends an entry, assigning to an
  existing key replaces its value in place (\<open>AList.update\<close>). \<open>Object.values\<close>
  enumerates keys that are array indices in ascending numeric order before the others, so
  the order of the list is the order of enumeration for the other keys only.
\<close>

record calendar =
  cal_el :: jsstring
  cal_config :: jsstring
  cal_date :: jsdate

type_synonym calmap = "(jsstring \<times> calendar) list"

text \<open>An event of a calendar, as the handlers read it.\<close>

record event =
  ev_id :: jsstring
  ev_title :: jsstring
  ev_start :: jsstring
  ev_end :: "jsstring option"
  ev_notes :: "jsstring option"

text \<open>
  \<open>ev_start\<close> is \<open>event.start.toISOString()\<close>, \<open>ev_end\<close> is
  \<open>event.end ? event.end.toISOString() : null\<close>, \<open>ev_notes\<close> is
  \<open>event.extendedProps.notes\<close>.
\<close>

section \<open>Requests, responses and effects\<close>

datatype json = JStr jsstring | JNull

datatype http_method = GET | POST | DELETE

text \<open>
  The arguments of a \<open>fetch\<close> call. A header value is the JavaScript value passed
  (\<open>csrftoken\<close> is \<open>null\<close> when there is no such cookie); the body is the object
  given to \<open>JSON.stringify\<close>, as its properties in order.
\<close>

record request =
  url :: jsstring
  http :: http_method
  headers :: "(jsstring \<times> jsstring option) list"
  body :: "(jsstring \<times> json) list option"

text \<open>
  How the promise \<open>fetch(...).then(response => response.json())\<close> settles: rejected with
  an error (the request failed, or the body is not JSON), or resolved with the parsed
  data. Of the data of an update or delete response the handlers read the truth value of
  \<open>data.success\<close> and \<open>data.message\<close> (\<open>None\<close> when it is \<open>undefined\<close>).
  An exception thrown inside the \<open>then\<close> callback (reading \<open>success\<close> of
  \<open>null\<close>) rejects the chain as well and reaches the same \<open>catch\<close>.
\<close>

datatype 'd settled = Rejected jserror | Resolved 'd

record response =
  success :: bool
  message :: "jsstring option"

text \<open>String concatenation with a value that may be \<open>undefined\<close>.\<close>

definition to_string :: "jsstring option \<Rightarrow> jsstring" where
  "to_string v = (case v of None \<Rightarrow> lit ''undefined'' | Some s \<Rightarrow> s)"

text \<open>
  What a handler does, in order. \<open>RefetchEvents k\<close> and \<open>GotoDate k d\<close> are the
  calls \<open>refetchEvents()\<close> and \<open>gotoDate(d)\<close> on the instance stored under the
  key \<open>k\<close>; \<open>Revert\<close> is \<open>info.revert()\<close>, with which the calendar library puts
  the dragged or resized event back where it was.
\<close>

datatype effect =
    Fetch request
  | Alert jsstring
  | Confirm jsstring
  | ConsoleLog jsstring
  | ConsoleError jsstring jserror
  | Revert
  | RefetchEvents jsstring
  | GotoDate jsstring jsdate
  | ModalShow
  | ModalHide
  | Navigate jsstring

fun requests_of :: "effect list \<Rightarrow> request list" where
  "requests_of [] = []"
| "requests_of (Fetch r # es) = r # requests_of es"
| "requests_of (e # es) = requests_of es"

fun refetched :: "effect list \<Rightarrow> jsstring list" where
  "refetched [] = []"
| "refetched (RefetchEvents k # es) = k # refetched es"
| "refetched (e # es) = refetched es"

definition json_headers :: "jsstring option \<Rightarrow> (jsstring \<times> jsstring option) list" where
  "json_headers csrftoken =
     [(lit ''Content-Type'', Some (lit ''application/json'')),
      (lit ''X-CSRFToken'', csrftoken)]"

text \<open>\<open>Object.values(calendars).forEach(cal => cal.refetchEvents())\<close>.\<close>

definition refetchAll :: "calmap \<Rightarrow> effect list" where
  "refetchAll calendars = map (\<lambda>(k, cal). RefetchEvents k) calendars"

section \<open>The appointments page (calendar_django.init.js)\<close>

subsection \<open>The widget pool\<close>

text \<open>
  \<open>createCalendar\<close> (lines 61 to 221): nothing happens when the element is missing;
  otherwise the new instance, whose initial date is today plus the offset of the
  configuration, is stored under the identifier of the configuration.
\<close>

definition createCalendar :: "element list \<Rightarrow> jsdate \<Rightarrow> config \<Rightarrow> calmap \<Rightarrow> calmap" where
  "createCalendar document now config calendars =
     (case getElementById document (elementId config) of
        None \<Rightarrow> calendars
      | Some calendarEl \<Rightarrow>
          AList.update (cfg_id config)
            \<lparr>cal_el = el_id calendarEl, cal_config = cfg_id config,
             cal_date = addDays now (dateOffset config)\<rparr>
            calendars)"

text \<open>\<open>configs.forEach(config => { createCalendar(config); })\<close>, from the empty object.\<close>

fun createAll :: "element list \<Rightarrow> jsdate \<Rightarrow> config list \<Rightarrow> calmap \<Rightarrow> calmap" where
  "createAll document now [] calendars = calendars"
| "createAll document now (config # rest) calendars =
     createAll document now rest (createCalendar document now config calendars)"

definition initCalendars :: "element list \<Rightarrow> jsdate \<Rightarrow> calmap" where
  "initCalendars document now = createAll document now calendarConfigs []"

subsection \<open>The state the handlers share\<close>

text \<open>
  The variables \<open>currentEvent\<close>, \<open>currentCalendarId\<close>, \<open>window.clickedInfo\<close> and
  \<open>calendars\<close>, and what the handlers write into the modal dialog: its title, the
  values of the controls \<open>event-title\<close>, \<open>event-notes\<close> and \<open>eventid\<close>, and the
  \<open>hidden\<close> attribute of the three buttons. The elements of the dialog are taken to
  exist.
\<close>

record form_fields =
  event_title :: jsstring
  event_notes :: jsstring
  eventid :: jsstring

record django_page =
  currentEvent :: "event option"
  currentCalendarId :: "jsstring option"
  clickedInfo :: "(jsdate \<times> jsstring) option"
  modal_title :: jsstring
  controls :: form_fields
  edit_btn_hidden :: bool
  save_btn_hidden :: bool
  delete_btn_hidden :: bool
  calendars :: calmap

subsection \<open>Clicks\<close>

text \<open>\<open>eventClick\<close> (lines 100 to 121).\<close>

definition django_eventClick :: "config \<Rightarrow> event \<Rightarrow> django_page \<Rightarrow> django_page \<times> effect list" where
  "django_eventClick config ev st =
     (st\<lparr>currentEvent := Some ev,
         currentCalendarId := Some (cfg_id config),
         modal_title := lit ''Edit Appointment'',
         controls := \<lparr>event_title = ev_title ev,
                     event_notes = (case ev_notes ev of None \<Rightarrow> [] | Some n \<Rightarrow> n),
                     eventid = ev_id ev\<rparr>,
         edit_btn_hidden := False,
         save_btn_hidden := True,
         delete_btn_hidden := False\<rparr>,
      [ModalShow])"

text \<open>
  \<open>dateClick\<close> (lines 124 to 143). What \<open>eventForm.reset()\<close> leaves in the
  controls depends on the markup of the form, which is not part of the script: it is the
  parameter \<open>reset\<close>.
\<close>

definition django_dateClick ::
  "(form_fields \<Rightarrow> form_fields) \<Rightarrow> config \<Rightarrow> jsdate \<Rightarrow> django_page \<Rightarrow> django_page \<times> effect list" where
  "django_dateClick reset config date st =
     (st\<lparr>currentEvent := None,
         currentCalendarId := Some (cfg_id config),
         modal_title := lit ''Add Appointment - '' @ title config,
         controls := reset ((controls st)\<lparr>event_title := [], event_notes := []\<rparr>),
         edit_btn_hidden := True,
         save_btn_hidden := False,
         delete_btn_hidden := True,
         clickedInfo := Some (date, cfg_id config)\<rparr>,
      [ModalShow])"

subsection \<open>Drag and resize\<close>

text \<open>
  \<open>eventDrop\<close> (lines 146 to 177) and \<open>eventResize\<close> (lines 180 to 211). The last
  argument is how the promise of the request settles; the result lists the request and
  then what the callbacks do.
\<close>

definition django_eventDrop ::
  "jsstring option \<Rightarrow> calmap \<Rightarrow> event \<Rightarrow> response settled \<Rightarrow> effect list" where
  "django_eventDrop csrftoken cals ev outcome =
     Fetch \<lparr>url = lit ''/appointments/api/appointments/'' @ ev_id ev @ lit ''/update/'',
            http = POST,
            headers = json_headers csrftoken,
            body = Some [(lit ''start'', JStr (ev_start ev))]\<rparr>
     # (case outcome of
          Resolved data \<Rightarrow>
            if success data
            then ConsoleLog (lit ''Appointment moved successfully'') # refetchAll cals
            else [Alert (lit ''Error updating appointment: '' @ to_string (message data)),
                  Revert]
        | Rejected err \<Rightarrow>
            [ConsoleError (lit ''Error:'') err,
             Alert (lit ''Error updating appointment''),
             Revert])"

definition django_eventResize ::
  "jsstring option \<Rightarrow> calmap \<Rightarrow> event \<Rightarrow> response settled \<Rightarrow> effect list" where
  "django_eventResize csrftoken cals ev outcome =
     Fetch \<lparr>url = lit ''/appointments/api/appointments/'' @ ev_id ev @ lit ''/update/'',
            http = POST,
            headers = json_headers csrftoken,
            body = Some [(lit ''start'', JStr (ev_start ev)),
                         (lit ''end'', (case ev_end ev of None \<Rightarrow> JNull | Some e \<Rightarrow> JStr e))]\<rparr>
     # (case outcome of
          Resolved data \<Rightarrow>
            if success data
            then [ConsoleLog (lit ''Appointment duration updated'')]
            else [Alert (lit ''Error updating appointment: '' @ to_string (message data)),
                  Revert]
        | Rejected err \<Rightarrow>
            [ConsoleError (lit ''Error:'') err,
             Alert (lit ''Error updating appointment''),
             Revert])"

subsection \<open>The form and the delete button\<close>

text \<open>
  The \<open>submit\<close> handler of the form (lines 229 to 275). A string is true when it is
  not empty. No branch assigns to a variable of the page, so the state is returned as it
  was.
\<close>

definition django_submit ::
  "jsstring option \<Rightarrow> django_page \<Rightarrow> response settled \<Rightarrow> django_page \<times> effect list" where
  "django_submit csrftoken st outcome =
     (let notes = event_notes (controls st);
          appointmentId = eventid (controls st)
      in if currentEvent st \<noteq> None \<and> appointmentId \<noteq> [] then
           (st,
            Fetch \<lparr>url = lit ''/appointments/api/appointments/'' @ appointmentId @ lit ''/update/'',
                   http = POST,
                   headers = json_headers csrftoken,
                   body = Some [(lit ''notes'', JStr notes)]\<rparr>
            # (case outcome of
                 Resolved data \<Rightarrow>
                   if success data
                   then refetchAll (calendars st)
                        @ [ModalHide, Alert (lit ''Appointment updated successfully!'')]
                   else [Alert (lit ''Error: '' @ to_string (message data))]
               | Rejected err \<Rightarrow>
                   [ConsoleError (lit ''Error:'') err,
                    Alert (lit ''Error updating appointment'')]))
         else if clickedInfo st \<noteq> None then
           (st,
            [Alert (lit ''To create appointments, please use the full appointment creation form.''),
             ModalHide])
         else (st, []))"

text \<open>
  The \<open>click\<close> handler of the delete button (lines 278 to 305). \<open>confirmed\<close> is the
  answer to the \<open>confirm\<close> dialog, which is asked only when an event is selected.
\<close>

definition django_delete ::
  "jsstring option \<Rightarrow> django_page \<Rightarrow> bool \<Rightarrow> response settled \<Rightarrow> django_page \<times> effect list" where
  "django_delete csrftoken st confirmed outcome =
     (case currentEvent st of
        None \<Rightarrow> (st, [])
      | Some ev \<Rightarrow>
          (st,
           Confirm (lit ''Are you sure you want to delete this appointment?'')
           # (if confirmed then
                Fetch \<lparr>url = lit ''/appointments/api/appointments/'' @ ev_id ev @ lit ''/delete/'',
                       http = DELETE,
                       headers = json_headers csrftoken,
                       body = None\<rparr>
                # (case outcome of
                     Resolved data \<Rightarrow>
                       if success data
                       then refetchAll (calendars st)
                            @ [ModalHide, Alert (lit ''Appointment deleted successfully!'')]
                       else [Alert (lit ''Error: '' @ to_string (message data))]
                   | Rejected err \<Rightarrow>
                       [ConsoleError (lit ''Error:'') err,
                        Alert (lit ''Error deleting appointment'')])
              else [])))"

subsection \<open>The buttons and the timer\<close>

text \<open>
  The \<open>onclick\<close> of the button "Sync to Today" (lines 312 to 319): the loop runs over
  \<open>calendarConfigs\<close> with the index, and \<open>calendars[config.id].gotoDate(...)\<close>
  throws a TypeError when no instance is stored under the identifier, which ends the
  loop. The result is the object of instances, the calls made, and the error if one was
  thrown.
\<close>

fun syncFrom ::
  "jsdate \<Rightarrow> nat \<Rightarrow> config list \<Rightarrow> calmap \<Rightarrow> calmap \<times> effect list \<times> jserror option" where
  "syncFrom today index [] cals = (cals, [], None)"
| "syncFrom today index (config # rest) cals =
     (case map_of cals (cfg_id config) of
        None \<Rightarrow> (cals, [], Some TypeError)
      | Some cal \<Rightarrow>
          (let targetDate = addDays today (int index);
               (cals', effs, err) =
                 syncFrom today (index + 1) rest
                   (AList.update (cfg_id config) (cal\<lparr>cal_date := targetDate\<rparr>) cals)
           in (cals', GotoDate (cfg_id config) targetDate # effs, err)))"

definition django_syncToToday :: "jsdate \<Rightarrow> calmap \<Rightarrow> calmap \<times> effect list \<times> jserror option" where
  "django_syncToToday today cals = syncFrom today 0 calendarConfigs cals"

text \<open>The \<open>onclick\<close> of the button "Refresh All" (lines 324 to 326).\<close>

definition django_refreshAll :: "calmap \<Rightarrow> effect list" where
  "django_refreshAll cals = refetchAll cals"




subsection \<open>The event source\<close>

text \<open>
  The \<open>events\<close> function of a calendar (lines 87 to 97): the calendar library calls it
  with the visible range \<open>info\<close> and its two callbacks whenever it needs the events of
  a range. An exception thrown by \<open>successCallback\<close> inside the \<open>then\<close> callback
  rejects the chain and reaches the \<open>catch\<close> too; \<open>successThrows\<close> tells for which
  data that happens.
\<close>

record fetchInfo =
  startStr :: jsstring
  endStr :: jsstring

datatype 'd source_effect =
    FetchEvents jsstring
  | SuccessCallback 'd
  | FailureCallback jserror
  | SourceError jsstring jserror

definition django_events ::
  "fetchInfo \<Rightarrow> ('d \<Rightarrow> jserror option) \<Rightarrow> 'd settled \<Rightarrow> 'd source_effect list" where
  "django_events info successThrows outcome =
     FetchEvents (lit ''/appointments/api/appointments/?start='' @ startStr info
                  @ lit ''&end='' @ endStr info)
     # (case outcome of
          Resolved data \<Rightarrow>
            SuccessCallback data
            # (case successThrows data of
                 None \<Rightarrow> []
               | Some err \<Rightarrow>
                   [SourceError (lit ''Error fetching appointments:'') err,
                    FailureCallback err])
        | Rejected err \<Rightarrow>
            [SourceError (lit ''Error fetching appointments:'') err, FailureCallback err])"

section \<open>The rooms page (calendar_rooms.init.js)\<close>

text \<open>The Greek texts of the alerts and of the dialog, as code units.\<close>

definition msg_error_prefix :: jsstring where
  "msg_error_prefix = [931, 966, 940, 955, 956, 945, 58, 32]"

definition msg_update_failed :: jsstring where
  "msg_update_failed =
     [931, 966, 940, 955, 956, 945, 32, 954, 945, 964, 940, 32, 964, 951, 957, 32, 949, 957,
      951, 956, 941, 961, 969, 963, 951]"

definition msg_delete_failed :: jsstring where
  "msg_delete_failed =
     [931, 966, 940, 955, 956, 945, 32, 954, 945, 964, 940, 32, 964, 951, 32, 948, 953, 945,
      947, 961, 945, 966, 942]"

definition msg_delete_confirm :: jsstring where
  "msg_delete_confirm =
     [917, 943, 963, 964, 949, 32, 963, 943, 947, 959, 965, 961, 959, 953, 32, 972, 964, 953,
      32, 952, 941, 955, 949, 964, 949, 32, 957, 945, 32, 948, 953, 945, 947, 961, 940, 968,
      949, 964, 949, 32, 945, 965, 964, 972, 32, 964, 959, 32, 961, 945, 957, 964, 949, 946,
      959, 973, 59]"

definition msg_deleted :: jsstring where
  "msg_deleted =
     [932, 959, 32, 961, 945, 957, 964, 949, 946, 959, 973, 32, 948, 953, 945, 947, 961, 940,
      966, 951, 954, 949, 32, 949, 960, 953, 964, 965, 967, 974, 962, 33]"

definition msg_details_title :: jsstring where
  "msg_details_title =
     [923, 949, 960, 964, 959, 956, 941, 961, 949, 953, 949, 962, 32, 929, 945, 957, 964, 949,
      946, 959, 973]"

subsection \<open>The widget pool\<close>

text \<open>
  \<open>createRoomCalendar\<close> (lines 42 to 204): every instance starts at \<open>currentDate\<close>
  and is stored under the identifier of its room.
\<close>

definition createRoomCalendar :: "element list \<Rightarrow> jsdate \<Rightarrow> roomConfig \<Rightarrow> calmap \<Rightarrow> calmap" where
  "createRoomCalendar document currentDate roomConfig cals =
     (case getElementById document (room_elementId roomConfig) of
        None \<Rightarrow> cals
      | Some calendarEl \<Rightarrow>
          AList.update (room_id roomConfig)
            \<lparr>cal_el = el_id calendarEl, cal_config = room_id roomConfig,
             cal_date = currentDate\<rparr>
            cals)"

fun createAllRooms :: "element list \<Rightarrow> jsdate \<Rightarrow> roomConfig list \<Rightarrow> calmap \<Rightarrow> calmap" where
  "createAllRooms document currentDate [] cals = cals"
| "createAllRooms document currentDate (roomConfig # rest) cals =
     createAllRooms document currentDate rest
       (createRoomCalendar document currentDate roomConfig cals)"

definition initRoomCalendars :: "element list \<Rightarrow> jsdate \<Rightarrow> calmap" where
  "initRoomCalendars document currentDate =
     createAllRooms document currentDate (roomsData document) []"

subsection \<open>The state the handlers share\<close>

text \<open>
  The variables \<open>currentEvent\<close>, \<open>currentDate\<close> and \<open>calendars\<close>, and what the
  handlers write into the page: the title of the dialog, the controls \<open>event-title\<close>
  and \<open>eventid\<close>, the markup of \<open>appointment-details\<close> and the text of
  \<open>current-date-display\<close> (each written only when the element exists, which the two
  flags tell).
\<close>

record rooms_page =
  r_currentEvent :: "event option"
  r_currentDate :: jsdate
  r_calendars :: calmap
  r_modal_title :: jsstring
  r_event_title :: jsstring
  r_eventid :: jsstring
  r_has_details :: bool
  r_details :: jsstring
  r_has_date_display :: bool
  r_date_display :: jsstring

subsection \<open>The event source and the clicks\<close>

text \<open>The \<open>events\<close> function of a room calendar (lines 64 to 76).\<close>

definition rooms_events ::
  "roomConfig \<Rightarrow> fetchInfo \<Rightarrow> ('d \<Rightarrow> jserror option) \<Rightarrow> 'd settled \<Rightarrow> 'd source_effect list" where
  "rooms_events roomConfig info successThrows outcome =
     FetchEvents (lit ''/appointments/api/room-appointments/?start='' @ startStr info
                  @ lit ''&end='' @ endStr info
                  @ lit ''&room_id='' @ room_id roomConfig)
     # (case outcome of
          Resolved data \<Rightarrow>
            SuccessCallback data
            # (case successThrows data of
                 None \<Rightarrow> []
               | Some err \<Rightarrow>
                   [SourceError (lit ''Error fetching appointments for ''
                                 @ to_string (room_name roomConfig) @ lit '':'') err,
                    FailureCallback err])
        | Rejected err \<Rightarrow>
            [SourceError (lit ''Error fetching appointments for ''
                          @ to_string (room_name roomConfig) @ lit '':'') err,
             FailureCallback err])"

text \<open>
  \<open>eventClick\<close> (lines 79 to 126). The markup built from the properties of the event
  (lines 95 to 115) is the parameter \<open>detailsHtml\<close>.
\<close>

definition rooms_eventClick :: "(event \<Rightarrow> jsstring) \<Rightarrow> event \<Rightarrow> rooms_page \<Rightarrow> rooms_page \<times> effect list" where
  "rooms_eventClick detailsHtml ev st =
     (st\<lparr>r_currentEvent := Some ev,
         r_modal_title := msg_details_title,
         r_event_title := ev_title ev,
         r_details := (if r_has_details st then detailsHtml ev else r_details st),
         r_eventid := ev_id ev\<rparr>,
      [ModalShow])"

text \<open>
  \<open>dateClick\<close> (lines 129 to 132): the browser is sent to the creation form;
  \<open>clickedDateTime\<close> is \<open>info.date.toISOString()\<close>.
\<close>

definition rooms_dateClick :: "roomConfig \<Rightarrow> jsstring \<Rightarrow> rooms_page \<Rightarrow> rooms_page \<times> effect list" where
  "rooms_dateClick roomConfig clickedDateTime st =
     (st,
      [Navigate (lit ''/appointments/create/?room='' @ room_id roomConfig
                 @ lit ''&start='' @ clickedDateTime)])"

subsection \<open>Drag and resize\<close>

text \<open>\<open>eventDrop\<close> (lines 135 to 166) and \<open>eventResize\<close> (lines 169 to 197).\<close>

definition rooms_eventDrop ::
  "jsstring option \<Rightarrow> roomConfig \<Rightarrow> calmap \<Rightarrow> event \<Rightarrow> response settled \<Rightarrow> effect list" where
  "rooms_eventDrop csrftoken roomConfig cals ev outcome =
     Fetch \<lparr>url = lit ''/appointments/api/appointments/'' @ ev_id ev @ lit ''/update/'',
            http = POST,
            headers = json_headers csrftoken,
            body = Some [(lit ''start'', JStr (ev_start ev)),
                         (lit ''room_id'', JStr (room_id roomConfig))]\<rparr>
     # (case outcome of
          Resolved data \<Rightarrow>
            if success data
            then ConsoleLog (lit ''Appointment moved successfully'') # refetchAll cals
            else [Alert (msg_error_prefix @ to_string (message data)), Revert]
        | Rejected err \<Rightarrow>
            [ConsoleError (lit ''Error:'') err, Alert msg_update_failed, Revert])"

definition rooms_eventResize ::
  "jsstring option \<Rightarrow> calmap \<Rightarrow> event \<Rightarrow> response settled \<Rightarrow> effect list" where
  "rooms_eventResize csrftoken cals ev outcome =
     Fetch \<lparr>url = lit ''/appointments/api/appointments/'' @ ev_id ev @ lit ''/update/'',
            http = POST,
            headers = json_headers csrftoken,
            body = Some [(lit ''start'', JStr (ev_start ev)),
                         (lit ''end'', (case ev_end ev of None \<Rightarrow> JNull | Some e \<Rightarrow> JStr e))]\<rparr>
     # (case outcome of
          Resolved data \<Rightarrow>
            if \<not> success data
            then [Alert (msg_error_prefix @ to_string (message data)), Revert]
            else []
        | Rejected err \<Rightarrow>
            [ConsoleError (lit ''Error:'') err, Alert msg_update_failed, Revert])"

subsection \<open>Navigation, refresh and delete\<close>

text \<open>
  \<open>updateDateDisplay\<close> (lines 237 to 243); \<open>fmt\<close> is
  \<open>toLocaleDateString('el-GR', options)\<close>.
\<close>

definition updateDateDisplay :: "(jsdate \<Rightarrow> jsstring) \<Rightarrow> rooms_page \<Rightarrow> rooms_page" where
  "updateDateDisplay fmt st =
     (if r_has_date_display st then st\<lparr>r_date_display := fmt (r_currentDate st)\<rparr> else st)"

text \<open>
  \<open>Object.values(calendars).forEach(cal => { cal.gotoDate(currentDate); })\<close>: every
  stored instance goes to the date, and the calls are listed.
\<close>

definition gotoAll :: "jsdate \<Rightarrow> calmap \<Rightarrow> calmap \<times> effect list" where
  "gotoAll d cals =
     (map (\<lambda>(k, cal). (k, cal\<lparr>cal_date := d\<rparr>)) cals,
      map (\<lambda>(k, cal). GotoDate k d) cals)"

text \<open>
  The handlers of \<open>prev-day\<close>, \<open>next-day\<close> and \<open>today-btn\<close> (lines 212 to 234);
  \<open>now\<close> is \<open>new Date()\<close>.
\<close>

definition rooms_prevDay :: "(jsdate \<Rightarrow> jsstring) \<Rightarrow> rooms_page \<Rightarrow> rooms_page \<times> effect list" where
  "rooms_prevDay fmt st =
     (let currentDate = addDays (r_currentDate st) (- 1);
          (cals, effs) = gotoAll currentDate (r_calendars st)
      in (updateDateDisplay fmt (st\<lparr>r_currentDate := currentDate, r_calendars := cals\<rparr>),
          effs))"

definition rooms_nextDay :: "(jsdate \<Rightarrow> jsstring) \<Rightarrow> rooms_page \<Rightarrow> rooms_page \<times> effect list" where
  "rooms_nextDay fmt st =
     (let currentDate = addDays (r_currentDate st) 1;
          (cals, effs) = gotoAll currentDate (r_calendars st)
      in (updateDateDisplay fmt (st\<lparr>r_currentDate := currentDate, r_calendars := cals\<rparr>),
          effs))"

definition rooms_today :: "(jsdate \<Rightarrow> jsstring) \<Rightarrow> jsdate \<Rightarrow> rooms_page \<Rightarrow> rooms_page \<times> effect list" where
  "rooms_today fmt now st =
     (let currentDate = now;
          (cals, effs) = gotoAll currentDate (r_calendars st)
      in (updateDateDisplay fmt (st\<lparr>r_currentDate := currentDate, r_calendars := cals\<rparr>),
          effs))"

text \<open>The handler of \<open>refresh-all\<close> (lines 249 to 251).\<close>

definition rooms_refreshAll :: "calmap \<Rightarrow> effect list" where
  "rooms_refreshAll cals = refetchAll cals"

text \<open>The \<open>click\<close> handler of the delete button (lines 254 to 280).\<close>

definition rooms_delete ::
  "jsstring option \<Rightarrow> rooms_page \<Rightarrow> bool \<Rightarrow> response settled \<Rightarrow> rooms_page \<times> effect list" where
  "rooms_delete csrftoken st confirmed outcome =
     (case r_currentEvent st of
        None \<Rightarrow> (st, [])
      | Some ev \<Rightarrow>
          (st,
           Confirm msg_delete_confirm
           # (if confirmed then
                Fetch \<lparr>url = lit ''/appointments/api/appointments/'' @ ev_id ev @ lit ''/delete/'',
                       http = DELETE,
                       headers = json_headers csrftoken,
                       body = None\<rparr>
                # (case outcome of
                     Resolved data \<Rightarrow>
                       if success data
                       then refetchAll (r_calendars st) @ [ModalHide, Alert msg_deleted]
                       else [Alert (msg_error_prefix @ to_string (message data))]
                   | Rejected err \<Rightarrow>
                       [ConsoleError (lit ''Error:'') err, Alert msg_delete_failed])
              else [])))"

section \<open>Notions of the claims\<close>

subsection \<open>The cookie entry that getCookie reads\<close>

text \<open>
  The entry the claim about \<open>getCookie\<close> speaks of: the first of the pieces of
  \<open>document.cookie\<close> between semicolons whose trimmed text starts with the name
  followed by \<open>=\<close>.
\<close>

definition first_matching :: "jsstring \<Rightarrow> jsstring \<Rightarrow> jsstring option" where
  "first_matching name document_cookie =
     find (\<lambda>entry. prefix (name @ lit ''='') entry) (map trim (split_js 59 document_cookie))"

subsection \<open>Endpoints, requests and outcomes\<close>

text \<open>
  The URLs the claims name, \<open>/appointments/api/appointments/<id>/update/\<close> and
  \<open>/appointments/api/appointments/<id>/delete/\<close>.
\<close>

definition update_endpoint :: "jsstring \<Rightarrow> jsstring" where
  "update_endpoint appointmentId =
     lit ''/appointments/api/appointments/'' @ appointmentId @ lit ''/update/''"

definition delete_endpoint :: "jsstring \<Rightarrow> jsstring" where
  "delete_endpoint appointmentId =
     lit ''/appointments/api/appointments/'' @ appointmentId @ lit ''/delete/''"

text \<open>The requests among the effects of a handler, as method and URL.\<close>

definition sent :: "effect list \<Rightarrow> (http_method \<times> jsstring) list" where
  "sent es = map (\<lambda>r. (http r, url r)) (requests_of es)"

text \<open>What a handler does once its request has been issued.\<close>

fun after_request :: "effect list \<Rightarrow> effect list" where
  "after_request [] = []"
| "after_request (Fetch r # es) = es"
| "after_request (e # es) = after_request es"

text \<open>
  The server rejects a change: it answers with \<open>success: false\<close>, or the request
  fails.
\<close>

definition rejected :: "response settled \<Rightarrow> bool" where
  "rejected outcome =
     (case outcome of Rejected err \<Rightarrow> True | Resolved data \<Rightarrow> \<not> success data)"

subsection \<open>The event source\<close>

text \<open>
  An endpoint parameterized by named values: the URL \<open>endpoint?k1=v1&k2=v2...\<close>.
\<close>

fun join_params :: "(jsstring \<times> jsstring) list \<Rightarrow> jsstring" where
  "join_params [] = []"
| "join_params [(k, v)] = k @ lit ''='' @ v"
| "join_params ((k, v) # rest) = k @ lit ''='' @ v @ lit ''&'' @ join_params rest"

definition query_url :: "jsstring \<Rightarrow> (jsstring \<times> jsstring) list \<Rightarrow> jsstring" where
  "query_url endpoint params = endpoint @ lit ''?'' @ join_params params"

text \<open>
  The URLs an event source requests, the data it hands to the success callback, and the
  errors it hands to the failure callback.
\<close>

fun fetched :: "'d source_effect list \<Rightarrow> jsstring list" where
  "fetched [] = []"
| "fetched (FetchEvents u # es) = u # fetched es"
| "fetched (e # es) = fetched es"

fun delivered :: "'d source_effect list \<Rightarrow> 'd list" where
  "delivered [] = []"
| "delivered (SuccessCallback d # es) = d # delivered es"
| "delivered (e # es) = delivered es"

fun failures :: "'d source_effect list \<Rightarrow> jserror list" where
  "failures [] = []"
| "failures (FailureCallback err # es) = err # failures es"
| "failures (e # es) = failures es"

subsection \<open>The selected event\<close>

text \<open>
  The control \<open>eventid\<close> holds the identifier of the selected event whenever an event
  is selected. \<open>eventClick\<close> and \<open>dateClick\<close> establish this and no handler breaks
  it.
\<close>

definition selection_consistent :: "django_page \<Rightarrow> bool" where
  "selection_consistent st =
     (case currentEvent st of None \<Rightarrow> True | Some ev \<Rightarrow> eventid (controls st) = ev_id ev)"

subsection \<open>The widget pool\<close>

text \<open>
  A configuration whose element exists in the document, and the date each stored
  instance displays.
\<close>

definition has_element :: "element list \<Rightarrow> config \<Rightarrow> bool" where
  "has_element document config = (getElementById document (elementId config) \<noteq> None)"

definition shown :: "calmap \<Rightarrow> (jsstring \<times> jsdate) list" where
  "shown cals = map (\<lambda>(k, cal). (k, cal_date cal)) cals"

subsection \<open>Concrete pages\<close>

text \<open>
  Inputs at which the theorems are instantiated: documents with and without the element
  \<open>calendar2\<close>, a document of two rooms, an appointment, two answers of the server,
  and pages on which nothing has been clicked yet.
\<close>

definition el :: "string \<Rightarrow> element" where
  "el i = \<lparr>el_id = lit i, data_room_id = None, data_room_name = None\<rparr>"

definition full_document :: "element list" where
  "full_document = [el ''calendar1'', el ''calendar2'', el ''calendar3'', el ''calendar4'']"

definition partial_document :: "element list" where
  "partial_document = [el ''calendar1'', el ''calendar3'', el ''calendar4'']"

definition rooms_document :: "element list" where
  "rooms_document =
     [\<lparr>el_id = lit ''room-a'', data_room_id = Some (lit ''a''), data_room_name = Some (lit ''A'')\<rparr>,
      \<lparr>el_id = lit ''room-b'', data_room_id = Some (lit ''b''), data_room_name = Some (lit ''B'')\<rparr>]"

definition day :: "int \<Rightarrow> jsdate" where
  "day n = \<lparr>dayNumber = n, msOfDay = 0\<rparr>"

definition appointment42 :: event where
  "appointment42 =
     \<lparr>ev_id = lit ''42'', ev_title = lit ''Laser'',
      ev_start = lit ''2025-01-01T10:00:00.000Z'',
      ev_end = Some (lit ''2025-01-01T10:30:00.000Z''), ev_notes = None\<rparr>"

definition refused :: "response settled" where
  "refused = Resolved \<lparr>success = False, message = Some (lit ''Slot taken'')\<rparr>"

definition accepted :: "response settled" where
  "accepted = Resolved \<lparr>success = True, message = None\<rparr>"

definition blank_page :: "calmap \<Rightarrow> django_page" where
  "blank_page cals =
     \<lparr>currentEvent = None, currentCalendarId = None, clickedInfo = None, modal_title = [],
      controls = \<lparr>event_title = [], event_notes = [], eventid = []\<rparr>,
      edit_btn_hidden = False, save_btn_hidden = False, delete_btn_hidden = False,
      calendars = cals\<rparr>"

definition blank_rooms_page :: "jsdate \<Rightarrow> calmap \<Rightarrow> rooms_page" where
  "blank_rooms_page d cals =
     \<lparr>r_currentEvent = None, r_currentDate = d, r_calendars = cals, r_modal_title = [],
      r_event_title = [], r_eventid = [], r_has_details = True, r_details = [],
      r_has_date_display = True, r_date_display = []\<rparr>"

section \<open>Loading a page, its timer and the network\<close>

subsection \<open>The body of the scripts\<close>




subsection \<open>Timers\<close>



subsection \<open>The network and the calendar library\<close>







subsection \<open>The requests of a refresh\<close>






section \<open>Effects of the fan-out\<close>

lemma refetched_refetchAll: "refetched (refetchAll cals) = map fst cals"
  by (induction cals) (auto simp: refetchAll_def)

lemma refetched_append: "refetched (xs @ ys) = refetched xs @ refetched ys"
  by (induction xs rule: refetched.induct) auto

lemma requests_of_refetchAll: "requests_of (refetchAll cals) = []"
  by (induction cals) (auto simp: refetchAll_def)

lemma requests_of_append: "requests_of (xs @ ys) = requests_of xs @ requests_of ys"
  by (induction xs rule: requests_of.induct) auto

lemma Revert_notin_refetchAll: "Revert \<notin> set (refetchAll cals)"
  by (auto simp: refetchAll_def)

lemma ModalHide_notin_refetchAll: "ModalHide \<notin> set (refetchAll cals)"
  by (auto simp: refetchAll_def)

section \<open>The instances of the widget pool\<close>

text \<open>
  After the initialisation of the appointments page the object \<open>calendars\<close> has one
  entry for each configuration whose element exists, under the identifier of the
  configuration and in the order of the configurations, and the entry is the instance
  created for that configuration.
\<close>

lemma createCalendar_keys:
  "map fst (createCalendar document now config cals) =
     (if has_element document config \<and> cfg_id config \<notin> set (map fst cals)
      then map fst cals @ [cfg_id config] else map fst cals)"
  by (auto simp: createCalendar_def has_element_def update_keys split: option.split)

lemma createAll_keys:
  assumes "distinct (map cfg_id configs)" and "set (map cfg_id configs) \<inter> set (map fst cals) = {}"
  shows "map fst (createAll document now configs cals) =
           map fst cals @ map cfg_id (filter (has_element document) configs)"
  using assms
proof (induction configs arbitrary: cals)
  case Nil
  then show ?case by simp
next
  case (Cons config rest)
  let ?cals' = "createCalendar document now config cals"
  have k: "map fst ?cals' =
      (if has_element document config then map fst cals @ [cfg_id config] else map fst cals)"
    using Cons.prems(2) by (simp add: createCalendar_keys)
  have d: "distinct (map cfg_id rest)" using Cons.prems(1) by simp
  have i: "set (map cfg_id rest) \<inter> set (map fst ?cals') = {}"
    using Cons.prems k by auto
  show ?case
    using Cons.IH[OF d i] k by simp
qed

lemma createAll_value:
  assumes "distinct (map cfg_id configs)" and "config \<in> set configs"
    and "getElementById document (elementId config) = Some e"
  shows "map_of (createAll document now configs cals) (cfg_id config) =
           Some \<lparr>cal_el = el_id e, cal_config = cfg_id config,
                 cal_date = addDays now (dateOffset config)\<rparr>"
  using assms
proof (induction configs arbitrary: cals)
  case Nil
  then show ?case by simp
next
  case (Cons c rest)
  have other: "k \<notin> cfg_id ` set cs \<Longrightarrow>
      map_of (createAll document now cs al) k = map_of al k" for k cs al
    by (induction cs arbitrary: al)
       (auto simp: createCalendar_def update_conv' split: option.split)
  show ?case
  proof (cases "config = c")
    case True
    then have "cfg_id config \<notin> cfg_id ` set rest" using Cons.prems(1) by auto
    then show ?thesis
      using True Cons.prems(3) by (simp add: other createCalendar_def update_conv')
  next
    case False
    then show ?thesis using Cons by auto
  qed
qed

lemma distinct_calendarConfigs: "distinct (map cfg_id calendarConfigs)"
  by (simp add: calendarConfigs_def lit_def)

lemma initCalendars_keys:
  "map fst (initCalendars document now) =
     map cfg_id (filter (has_element document) calendarConfigs)"
  using createAll_keys[OF distinct_calendarConfigs, of "[]" document now]
  by (simp add: initCalendars_def)

text \<open>
  The loop of "Sync to Today" when every configuration has its instance, and what it
  leaves alone; the fan-out of the rooms page.
\<close>

lemma syncFrom_all_present:
  assumes "\<forall>c\<in>set configs. cfg_id c \<in> fst ` set cals"
  shows "snd (snd (syncFrom today i configs cals)) = None
       \<and> fst (snd (syncFrom today i configs cals)) =
           map (\<lambda>(j, c). GotoDate (cfg_id c) (addDays today (int j))) (enumerate i configs)
       \<and> map fst (fst (syncFrom today i configs cals)) = map fst cals"
  using assms
proof (induction configs arbitrary: i cals)
  case Nil
  then show ?case by simp
next
  case (Cons c rest)
  from Cons.prems obtain cal where cal: "map_of cals (cfg_id c) = Some cal"
    by (metis list.set_intros(1) map_of_eq_None_iff not_Some_eq)
  let ?cals' = "AList.update (cfg_id c) (cal\<lparr>cal_date := addDays today (int i)\<rparr>) cals"
  have same: "map fst ?cals' = map fst cals"
    using cal by (simp add: update_keys) (metis domI dom_map_of_conv_image_fst)
  then have "fst ` set ?cals' = fst ` set cals"
    by (metis set_map)
  with Cons.prems have "\<forall>c\<in>set rest. cfg_id c \<in> fst ` set ?cals'" by simp
  from Cons.IH[OF this, of "i + 1"] cal same show ?case
    by (simp add: case_prod_beta Let_def)
qed

lemma syncFrom_other:
  "k \<notin> cfg_id ` set configs \<Longrightarrow>
     map_of (fst (syncFrom today i configs cals)) k = map_of cals k"
proof (induction configs arbitrary: i cals)
  case Nil
  then show ?case by simp
next
  case (Cons c rest)
  then show ?case
    by (auto simp: case_prod_beta Let_def update_conv' split: option.split)
qed

lemma syncFrom_dates:
  assumes "distinct (map cfg_id configs)"
    and "\<forall>c\<in>set configs. cfg_id c \<in> fst ` set cals"
    and "j < length configs"
  shows "map_option cal_date (map_of (fst (syncFrom today i configs cals)) (cfg_id (configs ! j)))
           = Some (addDays today (int (i + j)))"
  using assms
proof (induction configs arbitrary: i j cals)
  case Nil
  then show ?case by simp
next
  case (Cons c rest)
  from Cons.prems(2) obtain cal where cal: "map_of cals (cfg_id c) = Some cal"
    by (metis list.set_intros(1) map_of_eq_None_iff not_Some_eq)
  let ?cals' = "AList.update (cfg_id c) (cal\<lparr>cal_date := addDays today (int i)\<rparr>) cals"
  have keys: "fst ` set ?cals' = fst ` set cals"
    using cal by (auto simp: dom_update) (metis domI dom_map_of_conv_image_fst)
  have pres: "\<forall>c\<in>set rest. cfg_id c \<in> fst ` set ?cals'"
    using Cons.prems(2) keys by simp
  have dist: "distinct (map cfg_id rest)" using Cons.prems(1) by simp
  show ?case
  proof (cases j)
    case 0
    have "cfg_id c \<notin> cfg_id ` set rest" using Cons.prems(1) by simp
    from syncFrom_other[OF this, of today "i + 1" ?cals'] cal 0 show ?thesis
      by (simp add: case_prod_beta Let_def update_conv')
  next
    case (Suc j')
    then have "j' < length rest" using Cons.prems(3) by simp
    from Cons.IH[OF dist pres this, of "i + 1"] cal Suc show ?thesis
      by (simp add: case_prod_beta Let_def)
  qed
qed

lemma gotoAll_dates: "\<forall>(k, cal)\<in>set (fst (gotoAll d cals)). cal_date cal = d"
  by (auto simp: gotoAll_def)

lemma gotoAll_keys: "map fst (fst (gotoAll d cals)) = map fst cals"
  by (induction cals) (auto simp: gotoAll_def)

lemma gotoAll_calls: "snd (gotoAll d cals) = map (\<lambda>k. GotoDate k d) (map fst cals)"
  by (induction cals) (auto simp: gotoAll_def)

lemma updateDateDisplay_keeps:
  "r_calendars (updateDateDisplay fmt st) = r_calendars st
   \<and> r_currentDate (updateDateDisplay fmt st) = r_currentDate st"
  by (simp add: updateDateDisplay_def)

lemma initRooms_example:
  "shown (initRoomCalendars rooms_document (day 5)) = [(lit ''a'', day 5), (lit ''b'', day 5)]"
  by (simp add: shown_def initRoomCalendars_def rooms_document_def createRoomCalendar_def
        getElementById_def lit_def)

lemma init_full_example:
  "shown (initCalendars full_document (day 0)) =
     [(lit ''calendar1'', day 0), (lit ''calendar2'', day 1), (lit ''calendar3'', day 2),
      (lit ''calendar4'', day 3)]"
  by (simp add: shown_def initCalendars_def calendarConfigs_def full_document_def el_def
        createCalendar_def getElementById_def lit_def addDays_def day_def)

lemma shown_keys: "map fst (shown cals) = map fst cals"
  by (induction cals) (auto simp: shown_def)

section \<open>What getCookie returns\<close>

lemma take_eq_prefix: "(take (length p) s = p) = prefix p s"
  by (metis append_eq_conv_conj prefix_def take_is_prefix)

lemma getCookie_loop_find:
  "getCookie_loop name cookies i =
     (case find (\<lambda>entry. prefix (name @ lit ''='') entry) (map trim (drop i cookies)) of
        None \<Rightarrow> Inr None
      | Some entry \<Rightarrow>
          (case decodeURIComponent (drop (length name + 1) entry) of
             Inl e \<Rightarrow> Inl e
           | Inr v \<Rightarrow> Inr (Some v)))"
proof (induction name cookies i rule: getCookie_loop.induct)
  case (1 name cookies i)
  show ?case
  proof (cases "i < length cookies")
    case False
    then show ?thesis by (simp add: getCookie_loop.simps[of name cookies i])
  next
    case True
    then have d: "drop i cookies = cookies ! i # drop (i + 1) cookies"
      by (simp add: Cons_nth_drop_Suc)
    have m: "(substring_to (trim (cookies ! i)) (length name + 1) = name @ lit ''='')
          = prefix (name @ lit ''='') (trim (cookies ! i))"
      using take_eq_prefix[of "name @ lit ''=''" "trim (cookies ! i)"]
      by (simp add: substring_to_def lit_def)
    show ?thesis
    proof (cases "prefix (name @ lit ''='') (trim (cookies ! i))")
      case True
      with \<open>i < length cookies\<close> m show ?thesis
        by (subst getCookie_loop.simps) (simp add: d substring_from_def Let_def)
    next
      case False
      with \<open>i < length cookies\<close> m "1.IH"[OF \<open>i < length cookies\<close> refl] show ?thesis
        by (subst getCookie_loop.simps) (simp add: d Let_def)
    qed
  qed
qed

lemma first_matching_empty: "first_matching name [] = None"
  by (simp add: first_matching_def trim_def lit_def)

text \<open>
  C9, as amended. \<open>getCookie name\<close> looks at the first entry of \<open>document.cookie\<close>
  whose trimmed text starts with \<open>name\<close> followed by \<open>=\<close>, and at no other entry:
  it returns \<open>null\<close> when there is none (so also for an empty \<open>document.cookie\<close>),
  the URI-decoded rest of that entry when \<open>decodeURIComponent\<close> accepts it, and it
  throws the URIError of \<open>decodeURIComponent\<close> when the rest of that entry is not
  well-formed percent-encoding.
\<close>

theorem getCookie_first_match:
  "getCookie name document_cookie =
     (case first_matching name document_cookie of
        None \<Rightarrow> Inr None
      | Some entry \<Rightarrow>
          (case decodeURIComponent (drop (length name + 1) entry) of
             Inl err \<Rightarrow> Inl err
           | Inr v \<Rightarrow> Inr (Some v)))"
proof (cases "document_cookie = []")
  case True
  then show ?thesis by (simp add: getCookie_def first_matching_empty)
next
  case False
  then show ?thesis
    by (simp add: getCookie_def getCookie_loop_find first_matching_def)
qed

text \<open>
  C9 as stated says that \<open>getCookie\<close> never throws. With the cookie string
  \<open>sessionid=1; csrftoken=%\<close> the call \<open>getCookie('csrftoken')\<close> of line 21 throws
  a URIError.
\<close>

theorem getCookie_throws:
  "getCookie (lit ''csrftoken'') (lit ''sessionid=1; csrftoken=%'') = Inl URIError"
  by (simp add: getCookie_def getCookie_loop_find lit_def trim_def is_js_space_def)

section \<open>The mutation relay\<close>

text \<open>
  C1, as amended. A move by drag and a resize are relayed, on both pages and whatever the
  server answers, as one POST to the update endpoint of the appointment, with the JSON
  content type and the CSRF token as headers and with the new start as body (and the new
  end for a resize, the room for a drag on the rooms page). When the server rejects the
  change (\<open>success: false\<close>, or the request fails) the last thing the handler does is
  \<open>info.revert()\<close>; when it accepts the change the handler does not revert. A
  confirmed delete of the selected event is relayed, whatever the server answers, as one
  DELETE request without body to the delete endpoint; nothing is reverted, whether it is
  accepted or rejected (the handler never calls \<open>revert\<close>, and nothing was changed
  on screen before the answer). A create by date click is not relayed to the API: neither
  the click nor the submission of the form that follows it issues a request.
\<close>

theorem relay_and_rollback:
  "requests_of (django_eventDrop tok cals ev outcome)
     = [\<lparr>url = update_endpoint (ev_id ev), http = POST,
         headers = [(lit ''Content-Type'', Some (lit ''application/json'')),
                    (lit ''X-CSRFToken'', tok)],
         body = Some [(lit ''start'', JStr (ev_start ev))]\<rparr>]
   \<and> requests_of (django_eventResize tok cals ev outcome)
     = [\<lparr>url = update_endpoint (ev_id ev), http = POST,
         headers = [(lit ''Content-Type'', Some (lit ''application/json'')),
                    (lit ''X-CSRFToken'', tok)],
         body = Some [(lit ''start'', JStr (ev_start ev)),
                      (lit ''end'', (case ev_end ev of None \<Rightarrow> JNull | Some e \<Rightarrow> JStr e))]\<rparr>]
   \<and> requests_of (rooms_eventDrop tok rc cals ev outcome)
     = [\<lparr>url = update_endpoint (ev_id ev), http = POST,
         headers = [(lit ''Content-Type'', Some (lit ''application/json'')),
                    (lit ''X-CSRFToken'', tok)],
         body = Some [(lit ''start'', JStr (ev_start ev)),
                      (lit ''room_id'', JStr (room_id rc))]\<rparr>]
   \<and> requests_of (rooms_eventResize tok cals ev outcome)
     = [\<lparr>url = update_endpoint (ev_id ev), http = POST,
         headers = [(lit ''Content-Type'', Some (lit ''application/json'')),
                    (lit ''X-CSRFToken'', tok)],
         body = Some [(lit ''start'', JStr (ev_start ev)),
                      (lit ''end'', (case ev_end ev of None \<Rightarrow> JNull | Some e \<Rightarrow> JStr e))]\<rparr>]
   \<and> (rejected outcome \<longrightarrow>
         last (django_eventDrop tok cals ev outcome) = Revert
       \<and> last (django_eventResize tok cals ev outcome) = Revert
       \<and> last (rooms_eventDrop tok rc cals ev outcome) = Revert
       \<and> last (rooms_eventResize tok cals ev outcome) = Revert)
   \<and> (\<not> rejected outcome \<longrightarrow>
         Revert \<notin> set (django_eventDrop tok cals ev outcome)
       \<and> Revert \<notin> set (django_eventResize tok cals ev outcome)
       \<and> Revert \<notin> set (rooms_eventDrop tok rc cals ev outcome)
       \<and> Revert \<notin> set (rooms_eventResize tok cals ev outcome))
   \<and> requests_of (snd (django_delete tok (st\<lparr>currentEvent := Some ev\<rparr>) True outcome))
     = [\<lparr>url = delete_endpoint (ev_id ev), http = DELETE,
         headers = [(lit ''Content-Type'', Some (lit ''application/json'')),
                    (lit ''X-CSRFToken'', tok)],
         body = None\<rparr>]
   \<and> requests_of (snd (rooms_delete tok (rst\<lparr>r_currentEvent := Some ev\<rparr>) True outcome))
     = [\<lparr>url = delete_endpoint (ev_id ev), http = DELETE,
         headers = [(lit ''Content-Type'', Some (lit ''application/json'')),
                    (lit ''X-CSRFToken'', tok)],
         body = None\<rparr>]
   \<and> Revert \<notin> set (snd (django_delete tok (st\<lparr>currentEvent := Some ev\<rparr>) True outcome))
   \<and> Revert \<notin> set (snd (rooms_delete tok (rst\<lparr>r_currentEvent := Some ev\<rparr>) True outcome))
   \<and> requests_of (snd (django_dateClick reset config date st)) = []
   \<and> requests_of (snd (django_submit tok (fst (django_dateClick reset config date st)) outcome))
     = []
   \<and> requests_of (snd (rooms_dateClick rc clicked rst)) = []"
proof -
  have relay:
    "requests_of (django_eventDrop tok cals ev outcome)
       = [\<lparr>url = update_endpoint (ev_id ev), http = POST,
           headers = [(lit ''Content-Type'', Some (lit ''application/json'')),
                      (lit ''X-CSRFToken'', tok)],
           body = Some [(lit ''start'', JStr (ev_start ev))]\<rparr>]"
    "requests_of (django_eventResize tok cals ev outcome)
       = [\<lparr>url = update_endpoint (ev_id ev), http = POST,
           headers = [(lit ''Content-Type'', Some (lit ''application/json'')),
                      (lit ''X-CSRFToken'', tok)],
           body = Some [(lit ''start'', JStr (ev_start ev)),
                        (lit ''end'', (case ev_end ev of None \<Rightarrow> JNull | Some e \<Rightarrow> JStr e))]\<rparr>]"
    "requests_of (rooms_eventDrop tok rc cals ev outcome)
       = [\<lparr>url = update_endpoint (ev_id ev), http = POST,
           headers = [(lit ''Content-Type'', Some (lit ''application/json'')),
                      (lit ''X-CSRFToken'', tok)],
           body = Some [(lit ''start'', JStr (ev_start ev)),
                        (lit ''room_id'', JStr (room_id rc))]\<rparr>]"
    "requests_of (rooms_eventResize tok cals ev outcome)
       = [\<lparr>url = update_endpoint (ev_id ev), http = POST,
           headers = [(lit ''Content-Type'', Some (lit ''application/json'')),
                      (lit ''X-CSRFToken'', tok)],
           body = Some [(lit ''start'', JStr (ev_start ev)),
                        (lit ''end'', (case ev_end ev of None \<Rightarrow> JNull | Some e \<Rightarrow> JStr e))]\<rparr>]"
    by (cases outcome;
        simp add: update_endpoint_def json_headers_def requests_of_refetchAll
          django_eventDrop_def django_eventResize_def rooms_eventDrop_def
          rooms_eventResize_def)+
  have rollback:
    "rejected outcome \<longrightarrow>
         last (django_eventDrop tok cals ev outcome) = Revert
       \<and> last (django_eventResize tok cals ev outcome) = Revert
       \<and> last (rooms_eventDrop tok rc cals ev outcome) = Revert
       \<and> last (rooms_eventResize tok cals ev outcome) = Revert"
    by (cases outcome)
       (simp_all add: rejected_def django_eventDrop_def django_eventResize_def
          rooms_eventDrop_def rooms_eventResize_def)
  have kept:
    "\<not> rejected outcome \<longrightarrow>
         Revert \<notin> set (django_eventDrop tok cals ev outcome)
       \<and> Revert \<notin> set (django_eventResize tok cals ev outcome)
       \<and> Revert \<notin> set (rooms_eventDrop tok rc cals ev outcome)
       \<and> Revert \<notin> set (rooms_eventResize tok cals ev outcome)"
    by (cases outcome)
       (simp_all add: rejected_def django_eventDrop_def django_eventResize_def
          rooms_eventDrop_def rooms_eventResize_def Revert_notin_refetchAll)
  have del:
    "requests_of (snd (django_delete tok (st\<lparr>currentEvent := Some ev\<rparr>) True outcome))
       = [\<lparr>url = delete_endpoint (ev_id ev), http = DELETE,
           headers = [(lit ''Content-Type'', Some (lit ''application/json'')),
                      (lit ''X-CSRFToken'', tok)],
           body = None\<rparr>]"
    "requests_of (snd (rooms_delete tok (rst\<lparr>r_currentEvent := Some ev\<rparr>) True outcome))
       = [\<lparr>url = delete_endpoint (ev_id ev), http = DELETE,
           headers = [(lit ''Content-Type'', Some (lit ''application/json'')),
                      (lit ''X-CSRFToken'', tok)],
           body = None\<rparr>]"
    "Revert \<notin> set (snd (django_delete tok (st\<lparr>currentEvent := Some ev\<rparr>) True outcome))"
    "Revert \<notin> set (snd (rooms_delete tok (rst\<lparr>r_currentEvent := Some ev\<rparr>) True outcome))"
    by (cases outcome;
        simp add: delete_endpoint_def json_headers_def requests_of_append
          requests_of_refetchAll Revert_notin_refetchAll django_delete_def rooms_delete_def)+
  have create:
    "requests_of (snd (django_dateClick reset config date st)) = []"
    "requests_of (snd (django_submit tok (fst (django_dateClick reset config date st)) outcome))
       = []"
    "requests_of (snd (rooms_dateClick rc clicked rst)) = []"
    by (simp_all add: django_dateClick_def django_submit_def rooms_dateClick_def)
  from relay rollback kept del create show ?thesis
    by (intro conjI)
qed

theorem relay_and_rollback_witness:
  "rejected refused
   \<and> \<not> rejected accepted
   \<and> requests_of (django_eventDrop None [] appointment42 refused)
       = [\<lparr>url = lit ''/appointments/api/appointments/42/update/'', http = POST,
           headers = [(lit ''Content-Type'', Some (lit ''application/json'')),
                      (lit ''X-CSRFToken'', None)],
           body = Some [(lit ''start'', JStr (lit ''2025-01-01T10:00:00.000Z''))]\<rparr>]
   \<and> last (django_eventDrop None [] appointment42 refused) = Revert
   \<and> Revert \<notin> set (django_eventDrop None [] appointment42 accepted)
   \<and> requests_of (snd (django_delete None ((blank_page [])\<lparr>currentEvent := Some appointment42\<rparr>)
                          True accepted))
       = [\<lparr>url = lit ''/appointments/api/appointments/42/delete/'', http = DELETE,
           headers = [(lit ''Content-Type'', Some (lit ''application/json'')),
                      (lit ''X-CSRFToken'', None)],
           body = None\<rparr>]"
proof -
  have r: "rejected refused" by (simp add: rejected_def refused_def)
  have a: "\<not> rejected accepted" by (simp add: rejected_def accepted_def)
  have u: "update_endpoint (ev_id appointment42) = lit ''/appointments/api/appointments/42/update/''"
    by (simp add: update_endpoint_def appointment42_def lit_def)
  have d: "delete_endpoint (ev_id appointment42) = lit ''/appointments/api/appointments/42/delete/''"
    by (simp add: delete_endpoint_def appointment42_def lit_def)
  have s: "ev_start appointment42 = lit ''2025-01-01T10:00:00.000Z''"
    by (simp add: appointment42_def)
  from relay_and_rollback
         [where outcome = refused and tok = None and cals = "[]" and ev = appointment42
            and rc = "hd (roomsData rooms_document)" and st = "blank_page []"
            and rst = "blank_rooms_page (day 0) []" and reset = id
            and config = "hd calendarConfigs" and date = "day 0" and clicked = "[]"]
       relay_and_rollback
         [where outcome = accepted and tok = None and cals = "[]" and ev = appointment42
            and rc = "hd (roomsData rooms_document)" and st = "blank_page []"
            and rst = "blank_rooms_page (day 0) []" and reset = id
            and config = "hd calendarConfigs" and date = "day 0" and clicked = "[]"]
  show ?thesis
    using r a unfolding u d s by simp
qed

text \<open>
  C1 as stated fails for two of its four kinds of change. On the appointments page a date
  click and the submission that follows issue no request at all, and a delete that the
  server refuses with \<open>success: false\<close> ends without \<open>info.revert()\<close>.
\<close>

theorem create_not_relayed_delete_not_reverted:
  "requests_of (snd (django_dateClick id (hd calendarConfigs) (day 0) (blank_page []))) = []
   \<and> requests_of
        (snd (django_submit None
               (fst (django_dateClick id (hd calendarConfigs) (day 0) (blank_page [])))
               accepted)) = []
   \<and> Revert \<notin> set (snd (django_delete None
                            ((blank_page [])\<lparr>currentEvent := Some appointment42\<rparr>)
                            True refused))"
  by (simp add: django_dateClick_def django_submit_def django_delete_def blank_page_def
        refused_def calendarConfigs_def)

section \<open>Creating an appointment\<close>

text \<open>
  C2, as amended. A create by date click is not relayed to the API. On the appointments
  page the click opens the dialog with no event selected and remembers the date, and the
  submission that follows issues no request: it shows an alert that points to the full
  creation form and hides the dialog. On the rooms page the click sends the browser to
  \<open>/appointments/create/?room=<room>&start=<time>\<close> and issues no request either.
\<close>

theorem date_click_create_not_relayed:
  "sent (snd (django_dateClick reset config date st)) = []
   \<and> clickedInfo (fst (django_dateClick reset config date st)) = Some (date, cfg_id config)
   \<and> currentEvent (fst (django_dateClick reset config date st)) = None
   \<and> django_submit tok (fst (django_dateClick reset config date st)) outcome
       = (fst (django_dateClick reset config date st),
          [Alert (lit ''To create appointments, please use the full appointment creation form.''),
           ModalHide])
   \<and> rooms_dateClick rc clicked rst
       = (rst, [Navigate (lit ''/appointments/create/?room='' @ room_id rc
                          @ lit ''&start='' @ clicked)])
   \<and> sent (snd (rooms_dateClick rc clicked rst)) = []"
  by (simp add: sent_def django_dateClick_def django_submit_def rooms_dateClick_def)

text \<open>
  C2 as stated says that the submission after a date click issues a request that creates
  the appointment. On the appointments page it issues none, whatever the server would
  answer.
\<close>

theorem date_click_submit_sends_nothing:
  "requests_of
     (snd (django_submit None
            (fst (django_dateClick id (hd calendarConfigs) (day 0) (blank_page [])))
            accepted)) = []"
  by (simp add: django_dateClick_def django_submit_def blank_page_def)

section \<open>The refresh after a success\<close>

text \<open>
  C3, as amended. When the server answers a move by drag (on either page) or an edit
  submitted from the dialog with \<open>success: true\<close>, \<open>refetchEvents\<close> is called on
  every stored calendar instance, once each. When it answers a resize with
  \<open>success: true\<close>, no instance is refetched on either page.
\<close>

theorem success_fan_out:
  assumes "success data"
  shows "refetched (django_eventDrop tok cals ev (Resolved data)) = map fst cals
       \<and> refetched (rooms_eventDrop tok rc cals ev (Resolved data)) = map fst cals
       \<and> refetched (snd (django_submit tok
            (st\<lparr>currentEvent := Some ev, controls := (controls st)\<lparr>eventid := c # cs\<rparr>\<rparr>)
            (Resolved data))) = map fst (calendars st)
       \<and> refetched (django_eventResize tok cals ev (Resolved data)) = []
       \<and> refetched (rooms_eventResize tok cals ev (Resolved data)) = []"
  using assms
  by (simp add: django_eventDrop_def rooms_eventDrop_def django_submit_def
        django_eventResize_def rooms_eventResize_def refetched_refetchAll refetched_append)

theorem success_fan_out_witness:
  "success \<lparr>success = True, message = None\<rparr>
   \<and> refetched (django_eventDrop None (initCalendars full_document (day 0)) appointment42 accepted)
       = [lit ''calendar1'', lit ''calendar2'', lit ''calendar3'', lit ''calendar4'']
   \<and> refetched (django_eventResize None (initCalendars full_document (day 0)) appointment42 accepted)
       = []"
  using success_fan_out
          [where data = "\<lparr>success = True, message = None\<rparr>" and tok = None
             and cals = "initCalendars full_document (day 0)" and ev = appointment42
             and rc = "hd (roomsData rooms_document)" and st = "blank_page []"
             and c = 52 and cs = "[]"]
  by (simp add: accepted_def initCalendars_def calendarConfigs_def full_document_def el_def
        createCalendar_def getElementById_def lit_def)

text \<open>
  C3 as stated includes the resize. With four calendars on the appointments page and two
  on the rooms page, a resize that the server accepts refetches none of them.
\<close>

theorem resize_success_no_refetch:
  "map fst (initCalendars full_document (day 0))
     = [lit ''calendar1'', lit ''calendar2'', lit ''calendar3'', lit ''calendar4'']
   \<and> refetched (django_eventResize None (initCalendars full_document (day 0))
                   appointment42 accepted) = []
   \<and> map fst (initRoomCalendars rooms_document (day 0)) = [lit ''a'', lit ''b'']
   \<and> refetched (rooms_eventResize None (initRoomCalendars rooms_document (day 0))
                   appointment42 accepted) = []"
  by (simp add: accepted_def initCalendars_def calendarConfigs_def full_document_def el_def
        createCalendar_def getElementById_def lit_def django_eventResize_def
        rooms_eventResize_def initRoomCalendars_def rooms_document_def
        createRoomCalendar_def)

section \<open>A missing calendar element\<close>

text \<open>
  C4. The claim says that every bulk operation reaches all stored instances and skips
  none. \<open>createCalendar\<close> provides for a document without the element of a
  configuration, the loop of "Sync to Today" does not: in a document without the element
  \<open>calendar2\<close> three instances are stored, and the button, pressed on day 7, moves
  \<open>calendar1\<close>, then throws a TypeError at \<open>calendars['calendar2']\<close>, and the
  stored instances \<open>calendar3\<close> and \<open>calendar4\<close> stay on the days 2 and 3 of
  their creation.
\<close>

theorem sync_stops_at_missing_calendar:
  "shown (initCalendars partial_document (day 0)) =
     [(lit ''calendar1'', day 0), (lit ''calendar3'', day 2), (lit ''calendar4'', day 3)]
   \<and> snd (django_syncToToday (day 7) (initCalendars partial_document (day 0))) =
       ([GotoDate (lit ''calendar1'') (day 7)], Some TypeError)
   \<and> shown (fst (django_syncToToday (day 7) (initCalendars partial_document (day 0)))) =
       [(lit ''calendar1'', day 7), (lit ''calendar3'', day 2), (lit ''calendar4'', day 3)]"
  by (simp add: shown_def django_syncToToday_def initCalendars_def calendarConfigs_def
        partial_document_def el_def createCalendar_def getElementById_def lit_def addDays_def
        day_def Let_def)

section \<open>The remote event source\<close>

text \<open>
  C5. Whenever the calendar library asks an event source for the events of a range, the
  source requests the appointments endpoint parameterized by the \<open>start\<close> and
  \<open>end\<close> of exactly that range, and on the rooms page by the \<open>room_id\<close> of the
  room of that calendar as well. The parsed response is handed unchanged to the success
  callback, and the error of a failed request or of a body that does not parse is handed
  to the failure callback while the success callback is not called.
\<close>

theorem event_source_request_and_callbacks:
  "fetched (django_events info thr outcome)
     = [query_url (lit ''/appointments/api/appointments/'')
          [(lit ''start'', startStr info), (lit ''end'', endStr info)]]
   \<and> fetched (rooms_events rc info thr outcome)
     = [query_url (lit ''/appointments/api/room-appointments/'')
          [(lit ''start'', startStr info), (lit ''end'', endStr info),
           (lit ''room_id'', room_id rc)]]
   \<and> delivered (django_events info thr (Resolved data)) = [data]
   \<and> delivered (rooms_events rc info thr (Resolved data)) = [data]
   \<and> delivered (django_events info thr (Rejected err)) = []
   \<and> delivered (rooms_events rc info thr (Rejected err)) = []
   \<and> failures (django_events info thr (Rejected err)) = [err]
   \<and> failures (rooms_events rc info thr (Rejected err)) = [err]"
  by (simp add: django_events_def rooms_events_def query_url_def lit_def
        split: settled.split option.split)

section \<open>Going to a date\<close>

text \<open>
  C6, as amended. On the rooms page the buttons for the previous day, the next day and
  today move \<open>currentDate\<close> by one day back, one day forward, or to now, and every
  stored calendar instance then displays that one date. On the appointments page the
  button "Sync to Today" does not bring the calendars to a common date: when every
  configured calendar has its instance, the calendar of the configuration at position
  \<open>j\<close> goes to today plus \<open>j\<close> days, so the four calendars display four
  consecutive days.
\<close>

theorem sync_controls:
  assumes "set (map cfg_id calendarConfigs) \<subseteq> set (map fst cals)"
  shows "r_currentDate (fst (rooms_prevDay fmt st)) = addDays (r_currentDate st) (- 1)
       \<and> r_currentDate (fst (rooms_nextDay fmt st)) = addDays (r_currentDate st) 1
       \<and> r_currentDate (fst (rooms_today fmt now st)) = now
       \<and> (\<forall>(k, cal)\<in>set (r_calendars (fst (rooms_prevDay fmt st))).
             cal_date cal = r_currentDate (fst (rooms_prevDay fmt st)))
       \<and> (\<forall>(k, cal)\<in>set (r_calendars (fst (rooms_nextDay fmt st))).
             cal_date cal = r_currentDate (fst (rooms_nextDay fmt st)))
       \<and> (\<forall>(k, cal)\<in>set (r_calendars (fst (rooms_today fmt now st))).
             cal_date cal = r_currentDate (fst (rooms_today fmt now st)))
       \<and> map fst (r_calendars (fst (rooms_prevDay fmt st))) = map fst (r_calendars st)
       \<and> map fst (r_calendars (fst (rooms_nextDay fmt st))) = map fst (r_calendars st)
       \<and> map fst (r_calendars (fst (rooms_today fmt now st))) = map fst (r_calendars st)
       \<and> snd (snd (django_syncToToday today cals)) = None
       \<and> map fst (fst (django_syncToToday today cals)) = map fst cals
       \<and> (\<forall>j<length calendarConfigs.
             map_option cal_date
               (map_of (fst (django_syncToToday today cals)) (cfg_id (calendarConfigs ! j)))
             = Some (addDays today (int j)))"
proof -
  have p: "\<forall>c\<in>set calendarConfigs. cfg_id c \<in> fst ` set cals"
    using assms by auto
  have prev: "fst (rooms_prevDay fmt st) =
      updateDateDisplay fmt
        (st\<lparr>r_currentDate := addDays (r_currentDate st) (- 1),
            r_calendars := fst (gotoAll (addDays (r_currentDate st) (- 1)) (r_calendars st))\<rparr>)"
    by (simp add: rooms_prevDay_def Let_def case_prod_beta)
  have nxt: "fst (rooms_nextDay fmt st) =
      updateDateDisplay fmt
        (st\<lparr>r_currentDate := addDays (r_currentDate st) 1,
            r_calendars := fst (gotoAll (addDays (r_currentDate st) 1) (r_calendars st))\<rparr>)"
    by (simp add: rooms_nextDay_def Let_def case_prod_beta)
  have tod: "fst (rooms_today fmt now st) =
      updateDateDisplay fmt
        (st\<lparr>r_currentDate := now, r_calendars := fst (gotoAll now (r_calendars st))\<rparr>)"
    by (simp add: rooms_today_def Let_def case_prod_beta)
  have rooms:
    "r_currentDate (fst (rooms_prevDay fmt st)) = addDays (r_currentDate st) (- 1)"
    "r_currentDate (fst (rooms_nextDay fmt st)) = addDays (r_currentDate st) 1"
    "r_currentDate (fst (rooms_today fmt now st)) = now"
    "\<forall>(k, cal)\<in>set (r_calendars (fst (rooms_prevDay fmt st))).
        cal_date cal = r_currentDate (fst (rooms_prevDay fmt st))"
    "\<forall>(k, cal)\<in>set (r_calendars (fst (rooms_nextDay fmt st))).
        cal_date cal = r_currentDate (fst (rooms_nextDay fmt st))"
    "\<forall>(k, cal)\<in>set (r_calendars (fst (rooms_today fmt now st))).
        cal_date cal = r_currentDate (fst (rooms_today fmt now st))"
    "map fst (r_calendars (fst (rooms_prevDay fmt st))) = map fst (r_calendars st)"
    "map fst (r_calendars (fst (rooms_nextDay fmt st))) = map fst (r_calendars st)"
    "map fst (r_calendars (fst (rooms_today fmt now st))) = map fst (r_calendars st)"
    using gotoAll_dates by (simp_all add: prev nxt tod updateDateDisplay_keeps gotoAll_keys)
  have s1: "snd (snd (django_syncToToday today cals)) = None"
    and s2: "map fst (fst (django_syncToToday today cals)) = map fst cals"
    using syncFrom_all_present[OF p, of today 0] by (simp_all add: django_syncToToday_def)
  have s3: "\<forall>j<length calendarConfigs.
      map_option cal_date
        (map_of (fst (django_syncToToday today cals)) (cfg_id (calendarConfigs ! j)))
      = Some (addDays today (int j))"
    using syncFrom_dates[OF distinct_calendarConfigs p, of _ today 0]
    by (simp add: django_syncToToday_def)
  from rooms s1 s2 s3 show ?thesis by simp
qed

theorem sync_controls_witness:
  "set (map cfg_id calendarConfigs) \<subseteq> set (map fst (initCalendars full_document (day 0)))
   \<and> snd (snd (django_syncToToday (day 7) (initCalendars full_document (day 0)))) = None
   \<and> map fst (fst (django_syncToToday (day 7) (initCalendars full_document (day 0))))
       = [lit ''calendar1'', lit ''calendar2'', lit ''calendar3'', lit ''calendar4'']
   \<and> r_currentDate
        (fst (rooms_nextDay (\<lambda>d. []) (blank_rooms_page (day 5) (initRoomCalendars rooms_document (day 5)))))
       = day 6"
proof -
  have k: "map fst (initCalendars full_document (day 0))
      = [lit ''calendar1'', lit ''calendar2'', lit ''calendar3'', lit ''calendar4'']"
    using init_full_example shown_keys[of "initCalendars full_document (day 0)"] by simp
  have h: "set (map cfg_id calendarConfigs) \<subseteq> set (map fst (initCalendars full_document (day 0)))"
    unfolding k by (simp add: calendarConfigs_def)
  have d: "addDays (day 5) 1 = day 6" by (simp add: addDays_def day_def)
  have c: "r_currentDate (blank_rooms_page (day 5) (initRoomCalendars rooms_document (day 5))) = day 5"
    by (simp add: blank_rooms_page_def)
  from sync_controls[OF h, where today = "day 7" and fmt = "\<lambda>d. []"
         and st = "blank_rooms_page (day 5) (initRoomCalendars rooms_document (day 5))"
         and now = "day 9"]
  show ?thesis using h k c d by simp
qed

text \<open>
  C6 as stated says that after the sync button every instance displays the same date.
  On the appointments page with all four calendars, the button pressed on day 7 leaves
  them on the days 7, 8, 9 and 10.
\<close>

theorem sync_to_today_consecutive_days:
  "shown (fst (django_syncToToday (day 7) (initCalendars full_document (day 0)))) =
     [(lit ''calendar1'', day 7), (lit ''calendar2'', day 8), (lit ''calendar3'', day 9),
      (lit ''calendar4'', day 10)]
   \<and> day 7 \<noteq> day 8"
  by (simp add: shown_def django_syncToToday_def initCalendars_def calendarConfigs_def
        full_document_def el_def createCalendar_def getElementById_def lit_def addDays_def
        day_def Let_def)

section \<open>A firing of the refresh timer\<close>
































section \<open>One update endpoint\<close>

lemma eventClick_consistent: "selection_consistent (fst (django_eventClick config ev st))"
  by (simp add: selection_consistent_def django_eventClick_def)

lemma dateClick_consistent: "selection_consistent (fst (django_dateClick reset config date st))"
  by (simp add: selection_consistent_def django_dateClick_def)

lemma submit_consistent:
  "selection_consistent st \<Longrightarrow> selection_consistent (fst (django_submit tok st outcome))"
  by (simp add: django_submit_def Let_def)

lemma delete_consistent:
  "selection_consistent st \<Longrightarrow> selection_consistent (fst (django_delete tok st b outcome))"
  by (simp add: django_delete_def split: option.split)

text \<open>
  C7. For an appointment with identifier \<open>id\<close>, the edit submitted from the dialog while
  that appointment is selected and the drag and resize handlers of both pages each issue
  one POST, to the same URL \<open>/appointments/api/appointments/<id>/update/\<close>.
\<close>

theorem modal_edit_same_endpoint:
  assumes "currentEvent st = Some ev" and "selection_consistent st" and "ev_id ev \<noteq> []"
  shows "sent (snd (django_submit tok st outcome)) = [(POST, update_endpoint (ev_id ev))]
       \<and> sent (django_eventDrop tok cals ev outcome') = [(POST, update_endpoint (ev_id ev))]
       \<and> sent (django_eventResize tok cals ev outcome') = [(POST, update_endpoint (ev_id ev))]
       \<and> sent (rooms_eventDrop tok rc cals ev outcome') = [(POST, update_endpoint (ev_id ev))]
       \<and> sent (rooms_eventResize tok cals ev outcome') = [(POST, update_endpoint (ev_id ev))]"
proof -
  have s: "sent (snd (django_submit tok st outcome)) = [(POST, update_endpoint (ev_id ev))]"
    using assms
    by (cases outcome)
       (simp_all add: selection_consistent_def django_submit_def Let_def sent_def
          update_endpoint_def requests_of_append requests_of_refetchAll)
  have d: "sent (django_eventDrop tok cals ev outcome') = [(POST, update_endpoint (ev_id ev))]"
    by (cases outcome')
       (simp_all add: django_eventDrop_def sent_def update_endpoint_def requests_of_refetchAll)
  have r: "sent (django_eventResize tok cals ev outcome') = [(POST, update_endpoint (ev_id ev))]"
    by (cases outcome') (simp_all add: django_eventResize_def sent_def update_endpoint_def)
  have d': "sent (rooms_eventDrop tok rc cals ev outcome') = [(POST, update_endpoint (ev_id ev))]"
    by (cases outcome')
       (simp_all add: rooms_eventDrop_def sent_def update_endpoint_def requests_of_refetchAll)
  have r': "sent (rooms_eventResize tok cals ev outcome') = [(POST, update_endpoint (ev_id ev))]"
    by (cases outcome') (simp_all add: rooms_eventResize_def sent_def update_endpoint_def)
  from s d r d' r' show ?thesis by simp
qed

theorem modal_edit_same_endpoint_witness:
  "currentEvent (fst (django_eventClick (hd calendarConfigs) appointment42 (blank_page [])))
     = Some appointment42
   \<and> selection_consistent (fst (django_eventClick (hd calendarConfigs) appointment42 (blank_page [])))
   \<and> ev_id appointment42 \<noteq> []
   \<and> sent (snd (django_submit None
                  (fst (django_eventClick (hd calendarConfigs) appointment42 (blank_page [])))
                  accepted))
       = [(POST, lit ''/appointments/api/appointments/42/update/'')]
   \<and> sent (django_eventDrop None [] appointment42 accepted)
       = [(POST, lit ''/appointments/api/appointments/42/update/'')]"
proof -
  let ?st = "fst (django_eventClick (hd calendarConfigs) appointment42 (blank_page []))"
  have h1: "currentEvent ?st = Some appointment42"
    by (simp add: django_eventClick_def)
  have h2: "selection_consistent ?st"
    by (rule eventClick_consistent)
  have h3: "ev_id appointment42 \<noteq> []"
    by (simp add: appointment42_def lit_def)
  have u: "update_endpoint (ev_id appointment42) = lit ''/appointments/api/appointments/42/update/''"
    by (simp add: update_endpoint_def appointment42_def lit_def)
  from modal_edit_same_endpoint
         [OF h1 h2 h3, where tok = None and outcome = accepted and cals = "[]"
            and outcome' = accepted and rc = "hd (roomsData rooms_document)"]
  show ?thesis
    using h1 h2 h3 unfolding u by simp
qed

section \<open>The periodic refresh\<close>





section \<open>A refused delete or edit\<close>

text \<open>
  C10. When the server answers a delete (on either page) or an edit submitted from the
  dialog with \<open>success: false\<close>, the variables of the page, the object
  \<open>calendars\<close> among them, are what they were; after the request the handler only
  shows one alert, the error prefix followed by the message of the server; no calendar
  instance is refetched and the dialog is not hidden. The same holds for an edit by
  drag or resize that the server refuses, where the alert is followed by
  \<open>info.revert()\<close>, which puts the event back.
\<close>

theorem refused_delete_or_edit_only_alerts:
  assumes "\<not> success data"
  shows "fst (django_delete tok st confirmed (Resolved data)) = st
       \<and> fst (rooms_delete tok rst confirmed (Resolved data)) = rst
       \<and> fst (django_submit tok st (Resolved data)) = st
       \<and> after_request (snd (django_delete tok (st\<lparr>currentEvent := Some ev\<rparr>) True (Resolved data)))
           = [Alert (lit ''Error: '' @ to_string (message data))]
       \<and> after_request (snd (rooms_delete tok (rst\<lparr>r_currentEvent := Some ev\<rparr>) True (Resolved data)))
           = [Alert (msg_error_prefix @ to_string (message data))]
       \<and> after_request (snd (django_submit tok
            (st\<lparr>currentEvent := Some ev, controls := (controls st)\<lparr>eventid := c # cs\<rparr>\<rparr>)
            (Resolved data)))
           = [Alert (lit ''Error: '' @ to_string (message data))]
       \<and> after_request (django_eventDrop tok cals ev (Resolved data))
           = [Alert (lit ''Error updating appointment: '' @ to_string (message data)), Revert]
       \<and> after_request (django_eventResize tok cals ev (Resolved data))
           = [Alert (lit ''Error updating appointment: '' @ to_string (message data)), Revert]
       \<and> after_request (rooms_eventDrop tok rc cals ev (Resolved data))
           = [Alert (msg_error_prefix @ to_string (message data)), Revert]
       \<and> after_request (rooms_eventResize tok cals ev (Resolved data))
           = [Alert (msg_error_prefix @ to_string (message data)), Revert]
       \<and> refetched (snd (django_delete tok st confirmed (Resolved data))) = []
       \<and> refetched (snd (rooms_delete tok rst confirmed (Resolved data))) = []
       \<and> refetched (snd (django_submit tok st (Resolved data))) = []
       \<and> ModalHide \<notin> set (snd (django_delete tok st confirmed (Resolved data)))
       \<and> ModalHide \<notin> set (snd (rooms_delete tok rst confirmed (Resolved data)))
       \<and> ModalHide \<notin> set (snd (django_submit tok
            (st\<lparr>currentEvent := Some ev, controls := (controls st)\<lparr>eventid := c # cs\<rparr>\<rparr>)
            (Resolved data)))"
  using assms
  by (simp add: django_delete_def rooms_delete_def django_submit_def Let_def
        django_eventDrop_def django_eventResize_def rooms_eventDrop_def
        rooms_eventResize_def split: option.split)

theorem refused_delete_or_edit_only_alerts_witness:
  "\<not> success \<lparr>success = False, message = Some (lit ''Slot taken'')\<rparr>
   \<and> snd (django_delete None ((blank_page [])\<lparr>currentEvent := Some appointment42\<rparr>) True refused)
       = [Confirm (lit ''Are you sure you want to delete this appointment?''),
          Fetch \<lparr>url = lit ''/appointments/api/appointments/42/delete/'', http = DELETE,
                 headers = json_headers None, body = None\<rparr>,
          Alert (lit ''Error: Slot taken'')]
   \<and> after_request (snd (django_delete None ((blank_page [])\<lparr>currentEvent := Some appointment42\<rparr>) True refused))
       = [Alert (lit ''Error: Slot taken'')]"
  using refused_delete_or_edit_only_alerts
          [where data = "\<lparr>success = False, message = Some (lit ''Slot taken'')\<rparr>"
             and tok = None and st = "blank_page []" and confirmed = True
             and rst = "blank_rooms_page (day 0) []" and ev = appointment42
             and c = 52 and cs = "[]" and cals = "[]"
             and rc = "hd (roomsData rooms_document)"]
  by (simp add: refused_def django_delete_def blank_page_def appointment42_def lit_def
        to_string_def)

end
